theory Spec2Isabelle
  imports Complex_Main
begin

section \<open>Values\<close>

text \<open>
  Dates are day numbers (\<open>int\<close>): a \<open>pd.Timestamp\<close> at midnight, so that
  \<open>(a - b).days\<close> is \<open>a - b\<close> and \<open>date + pd.Timedelta(days=1)\<close> is \<open>date + 1\<close>.
  Python floats are real numbers, computed exactly. An exception is a value of
  \<open>py_error\<close>; \<open>NonFinite\<close> stands for a result that is an IEEE infinity or NaN
  (a division by zero on numpy floats, or a NaN operand): Python keeps computing with it,
  the real-valued model stops there.
\<close>

datatype py_error =
  IndexError | KeyError | ValueError | TypeError | ZeroDivisionError | NonFinite

text \<open>
  The one place where the source itself names NaN is the volatility surface
  (\<open>fill_value=np.nan\<close>), so what a surface returns is a number or NaN.
\<close>

datatype pyfloat = Num real | NaN

section \<open>instruments.py: contracts, legs, strategies\<close>

datatype option_type = Call | Put

datatype option_style = European | American

record OptionContract =
  underlying :: string
  option_type :: option_type
  style :: option_style
  strike :: real
  expiry :: int
  contract_size :: real

definition is_call :: "OptionContract \<Rightarrow> bool" where
  "is_call c = (option_type c = Call)"

definition is_put :: "OptionContract \<Rightarrow> bool" where
  "is_put c = (option_type c = Put)"

definition intrinsic_value :: "OptionContract \<Rightarrow> real \<Rightarrow> real" where
  "intrinsic_value c spot =
     (if is_call c then max (spot - strike c) 0 else max (strike c - spot) 0)"

definition OptionContract_payoff :: "OptionContract \<Rightarrow> real \<Rightarrow> real" where
  "OptionContract_payoff c spot = intrinsic_value c spot"

record OptionLeg =
  contract :: OptionContract
  quantity :: real
  entry_price :: "real option"

definition OptionLeg_payoff :: "OptionLeg \<Rightarrow> real \<Rightarrow> real" where
  "OptionLeg_payoff leg spot =
     OptionContract_payoff (contract leg) spot * quantity leg * contract_size (contract leg)"

record OptionStrategy =
  name :: string
  legs :: "OptionLeg list"

section \<open>data.py: the volatility surface\<close>

text \<open>
  The interpolant is built by scipy (\<open>Rbf\<close>, \<open>LinearNDInterpolator\<close>) and is a
  parameter here: at a point it raises, returns a number, or returns NaN (what
  \<open>LinearNDInterpolator(..., fill_value=np.nan)\<close> gives outside the convex hull of the
  samples). A row of \<open>vol_data\<close> is (strike, days_to_expiry, implied_vol).
\<close>

datatype interp_result = Raises | Returns pyfloat

record VolSurface =
  date :: int
  vol_data :: "(real \<times> int \<times> real) list"
  interpolator :: "real \<Rightarrow> int \<Rightarrow> interp_result"

text \<open>The \<open>expiry\<close> argument of \<open>iv\<close> is a timestamp or a number of days.\<close>

datatype expiry_arg = Timestamp int | Days int

definition np_clip :: "pyfloat \<Rightarrow> real \<Rightarrow> real \<Rightarrow> pyfloat" where
  "np_clip x lo hi = (case x of NaN \<Rightarrow> NaN | Num v \<Rightarrow> Num (min hi (max v lo)))"

text \<open>\<open>Series.idxmin\<close>: the position of the first smallest entry.\<close>

fun idxmin_from :: "nat \<Rightarrow> real \<Rightarrow> nat \<Rightarrow> real list \<Rightarrow> nat" where
  "idxmin_from best bv i [] = best"
| "idxmin_from best bv i (x # xs) =
     (if x < bv then idxmin_from i x (Suc i) xs else idxmin_from best bv (Suc i) xs)"

definition idxmin :: "real list \<Rightarrow> py_error + nat" where
  "idxmin xs = (case xs of [] \<Rightarrow> Inl ValueError | x # rest \<Rightarrow> Inr (idxmin_from 0 x 1 rest))"

definition distances :: "VolSurface \<Rightarrow> real \<Rightarrow> int \<Rightarrow> real list" where
  "distances s k days_to_expiry =
     map (\<lambda>(sk, sd, sv). sqrt ((sk - k)\<^sup>2 + (real_of_int (sd - days_to_expiry))\<^sup>2)) (vol_data s)"

definition iv :: "VolSurface \<Rightarrow> real \<Rightarrow> expiry_arg \<Rightarrow> py_error + pyfloat" where
  "iv s k e =
     (let days_to_expiry = (case e of Timestamp t \<Rightarrow> t - date s | Days n \<Rightarrow> n) in
      if days_to_expiry \<le> 0 then Inr (Num 0)
      else (case interpolator s k days_to_expiry of
              Returns iv_value \<Rightarrow> Inr (np_clip iv_value 0.01 5.0)
            | Raises \<Rightarrow>
                (case idxmin (distances s k days_to_expiry) of
                   Inl err \<Rightarrow> Inl err
                 | Inr nearest_idx \<Rightarrow> Inr (Num (snd (snd (vol_data s ! nearest_idx)))))))"

section \<open>data.py: market data\<close>

text \<open>
  \<open>spot_data\<close> is a frame with one price column, in index order (the constructor sorts
  it); the rate and dividend series are indexed the same way. \<open>vol_surfaces\<close> is a
  dict, here an association list read with \<open>map_of\<close>.
\<close>

record MarketData =
  spot_data :: "(int \<times> real) list"
  vol_surfaces :: "(int \<times> VolSurface) list"
  risk_free_rates :: "(int \<times> real) list"
  dividend_yields :: "(int \<times> real) list"

text \<open>
  The lookup shared by \<open>get_spot\<close>, \<open>get_rate\<close> and \<open>get_dividend_yield\<close>: the row of
  the date itself, else the last row of \<open>index[index <= date]\<close>; \<open>[-1]\<close> of an empty
  index raises IndexError.
\<close>

definition lookup_asof :: "(int \<times> real) list \<Rightarrow> int \<Rightarrow> py_error + real" where
  "lookup_asof series d =
     (case map_of series d of
        Some v \<Rightarrow> Inr v
      | None \<Rightarrow>
          (case filter (\<lambda>row. fst row \<le> d) series of
             [] \<Rightarrow> Inl IndexError
           | r # rs \<Rightarrow> Inr (snd (last (r # rs)))))"

definition get_spot :: "MarketData \<Rightarrow> int \<Rightarrow> py_error + real" where
  "get_spot md d = lookup_asof (spot_data md) d"

definition get_rate :: "MarketData \<Rightarrow> int \<Rightarrow> py_error + real" where
  "get_rate md d = lookup_asof (risk_free_rates md) d"

definition get_dividend_yield :: "MarketData \<Rightarrow> int \<Rightarrow> py_error + real" where
  "get_dividend_yield md d = lookup_asof (dividend_yields md) d"

text \<open>Python's \<open>min(xs, key=f)\<close>: the first element with the smallest key.\<close>

fun min_key_from :: "('a \<Rightarrow> int) \<Rightarrow> 'a \<Rightarrow> 'a list \<Rightarrow> 'a" where
  "min_key_from f best [] = best"
| "min_key_from f best (x # xs) = min_key_from f (if f x < f best then x else best) xs"

definition surface_dates :: "MarketData \<Rightarrow> int list" where
  "surface_dates md = sort (remdups (map fst (vol_surfaces md)))"

text \<open>
  The date of the surface that \<open>get_implied_vol\<close> reads: the query date when it has a
  surface, else \<open>min(surface_dates, key=lambda d: abs((d - date).days))\<close>; \<open>None\<close>
  when there is no surface at all.
\<close>

definition nearest_date :: "MarketData \<Rightarrow> int \<Rightarrow> int option" where
  "nearest_date md d =
     (if map_of (vol_surfaces md) d \<noteq> None then Some d
      else (case surface_dates md of
              [] \<Rightarrow> None
            | x # xs \<Rightarrow> Some (min_key_from (\<lambda>sd. \<bar>sd - d\<bar>) x xs)))"

definition get_implied_vol ::
  "MarketData \<Rightarrow> int \<Rightarrow> real \<Rightarrow> int \<Rightarrow> real option \<Rightarrow> py_error + pyfloat" where
  "get_implied_vol md d k e spot =
     (case nearest_date md d of
        None \<Rightarrow> Inr (Num 0.20)
      | Some sd \<Rightarrow>
          (case map_of (vol_surfaces md) sd of
             None \<Rightarrow> Inl KeyError
           | Some surface \<Rightarrow>
               (if spot = None \<or> spot = Some 0
                then (case get_spot md d of
                        Inl err \<Rightarrow> Inl err
                      | Inr s \<Rightarrow> iv surface k (Timestamp e))
                else iv surface k (Timestamp e))))"

section \<open>Sequencing computations that may raise\<close>

definition and_then :: "'e + 'a \<Rightarrow> ('a \<Rightarrow> 'e + 'b) \<Rightarrow> 'e + 'b" where
  "and_then m f = (case m of Inl err \<Rightarrow> Inl err | Inr v \<Rightarrow> f v)"

text \<open>\<open>sum(f(x) for x in xs)\<close>, started at \<open>acc\<close>; the first exception ends it.\<close>

fun sum_from :: "real \<Rightarrow> ('a \<Rightarrow> py_error + real) \<Rightarrow> 'a list \<Rightarrow> py_error + real" where
  "sum_from acc f [] = Inr acc"
| "sum_from acc f (x # xs) = and_then (f x) (\<lambda>v. sum_from (acc + v) f xs)"

section \<open>models.py: pricing models\<close>

record Greeks =
  delta :: real
  gamma :: real
  vega :: real
  theta :: real
  rho :: real

text \<open>The abstract base class: a model is its two methods.\<close>

record PricingModel =
  price :: "OptionContract \<Rightarrow> int \<Rightarrow> MarketData \<Rightarrow> py_error + real"
  greeks :: "OptionContract \<Rightarrow> int \<Rightarrow> MarketData \<Rightarrow> py_error + Greeks"

definition norm_pdf :: "real \<Rightarrow> real" where
  "norm_pdf x = exp (- (x\<^sup>2) / 2) / sqrt (2 * pi)"

text \<open>
  The volatility the closed forms use: the surface's value, or the flat 20 percent. A NaN
  from the surface makes every later quantity NaN.
\<close>

definition model_sigma ::
  "bool \<Rightarrow> MarketData \<Rightarrow> int \<Rightarrow> real \<Rightarrow> int \<Rightarrow> real \<Rightarrow> py_error + real" where
  "model_sigma use_market_iv md d K e S =
     (if use_market_iv
      then and_then (get_implied_vol md d K e (Some S))
             (\<lambda>v. case v of NaN \<Rightarrow> Inl NonFinite | Num sigma \<Rightarrow> Inr sigma)
      else Inr 0.20)"

text \<open>
  \<open>BlackScholesModel\<close>. \<open>norm_cdf\<close> is \<open>scipy.stats.norm.cdf\<close>, a parameter.
  Where the closed form divides by zero or takes the logarithm of a non-positive number
  the floats leave the reals.
\<close>

definition bs_d1 :: "real \<Rightarrow> real \<Rightarrow> real \<Rightarrow> real \<Rightarrow> real \<Rightarrow> real \<Rightarrow> real" where
  "bs_d1 S K r q sigma T = (ln (S / K) + (r - q + 0.5 * sigma\<^sup>2) * T) / (sigma * sqrt T)"

definition bs_d2 :: "real \<Rightarrow> real \<Rightarrow> real \<Rightarrow> real \<Rightarrow> real \<Rightarrow> real \<Rightarrow> real" where
  "bs_d2 S K r q sigma T = bs_d1 S K r q sigma T - sigma * sqrt T"

definition BlackScholes_price ::
  "(real \<Rightarrow> real) \<Rightarrow> bool \<Rightarrow> OptionContract \<Rightarrow> int \<Rightarrow> MarketData \<Rightarrow> py_error + real" where
  "BlackScholes_price norm_cdf use_market_iv opt d md =
     and_then (get_spot md d) (\<lambda>S.
     and_then (get_rate md d) (\<lambda>r.
     and_then (get_dividend_yield md d) (\<lambda>q.
       let K = strike opt; T = real_of_int (expiry opt - d) / 365 in
       if T \<le> 0 then Inr (intrinsic_value opt S)
       else and_then (model_sigma use_market_iv md d K (expiry opt) S) (\<lambda>sigma.
         if K = 0 \<or> S / K \<le> 0 \<or> sigma * sqrt T = 0 then Inl NonFinite
         else
           let d1 = bs_d1 S K r q sigma T; d2 = bs_d2 S K r q sigma T;
               p = (if is_call opt
                    then S * exp (- q * T) * norm_cdf d1 - K * exp (- r * T) * norm_cdf d2
                    else K * exp (- r * T) * norm_cdf (- d2) - S * exp (- q * T) * norm_cdf (- d1))
           in Inr (max p 0)))))"

definition BlackScholes_greeks ::
  "(real \<Rightarrow> real) \<Rightarrow> bool \<Rightarrow> OptionContract \<Rightarrow> int \<Rightarrow> MarketData \<Rightarrow> py_error + Greeks" where
  "BlackScholes_greeks norm_cdf use_market_iv opt d md =
     and_then (get_spot md d) (\<lambda>S.
     and_then (get_rate md d) (\<lambda>r.
     and_then (get_dividend_yield md d) (\<lambda>q.
       let K = strike opt; T = real_of_int (expiry opt - d) / 365 in
       if T \<le> 0
       then Inr \<lparr>delta = (if intrinsic_value opt S > 0 then 1 else 0),
                 gamma = 0, vega = 0, theta = 0, rho = 0\<rparr>
       else and_then (model_sigma use_market_iv md d K (expiry opt) S) (\<lambda>sigma.
         if K = 0 \<or> S / K \<le> 0 \<or> sigma * sqrt T = 0 then Inl NonFinite
         else
           let sqrt_T = sqrt T;
               d1 = bs_d1 S K r q sigma T; d2 = bs_d2 S K r q sigma T;
               nd1 = norm_pdf d1; Nd1 = norm_cdf d1; Nd2 = norm_cdf d2
           in Inr \<lparr>
                delta = (if is_call opt then exp (- q * T) * Nd1
                         else - exp (- q * T) * norm_cdf (- d1)),
                gamma = exp (- q * T) * nd1 / (S * sigma * sqrt_T),
                vega = S * exp (- q * T) * nd1 * sqrt_T / 100,
                theta =
                  (if is_call opt
                   then (- S * exp (- q * T) * nd1 * sigma / (2 * sqrt_T)
                         - r * K * exp (- r * T) * Nd2
                         + q * S * exp (- q * T) * Nd1) / 365
                   else (- S * exp (- q * T) * nd1 * sigma / (2 * sqrt_T)
                         + r * K * exp (- r * T) * norm_cdf (- d2)
                         - q * S * exp (- q * T) * norm_cdf (- d1)) / 365),
                rho = (if is_call opt then K * T * exp (- r * T) * Nd2 / 100
                       else - K * T * exp (- r * T) * norm_cdf (- d2) / 100)\<rparr>))))"

definition BlackScholesModel :: "(real \<Rightarrow> real) \<Rightarrow> bool \<Rightarrow> PricingModel" where
  "BlackScholesModel norm_cdf use_market_iv =
     \<lparr>price = BlackScholes_price norm_cdf use_market_iv,
      greeks = BlackScholes_greeks norm_cdf use_market_iv\<rparr>"

subsection \<open>SurfaceGreeksModel: bump and revalue\<close>

text \<open>
  Each helper deep-copies the market data, reads what it was meant to change, and returns
  the copy. A deep copy of a value is the value.
\<close>

definition bump_spot :: "MarketData \<Rightarrow> int \<Rightarrow> real \<Rightarrow> py_error + MarketData" where
  "bump_spot md d bump =
     (let bumped_data = md in
      and_then (get_spot md d) (\<lambda>current_spot. Inr bumped_data))"

definition bump_vol :: "MarketData \<Rightarrow> int \<Rightarrow> OptionContract \<Rightarrow> real \<Rightarrow> MarketData" where
  "bump_vol md d opt bump = (let bumped_data = md in bumped_data)"

definition bump_rate :: "MarketData \<Rightarrow> int \<Rightarrow> real \<Rightarrow> MarketData" where
  "bump_rate md d bump = (let bumped_data = md in bumped_data)"

definition SurfaceGreeks_price ::
  "PricingModel \<Rightarrow> OptionContract \<Rightarrow> int \<Rightarrow> MarketData \<Rightarrow> py_error + real" where
  "SurfaceGreeks_price base_model opt d md = price base_model opt d md"

definition SurfaceGreeks_greeks ::
  "PricingModel \<Rightarrow> real \<Rightarrow> OptionContract \<Rightarrow> int \<Rightarrow> MarketData \<Rightarrow> py_error + Greeks" where
  "SurfaceGreeks_greeks base_model bump_size opt d md =
     and_then (get_spot md d) (\<lambda>S.
     and_then (SurfaceGreeks_price base_model opt d md) (\<lambda>P0.
       let bump_S = S * bump_size in
       and_then (bump_spot md d bump_S) (\<lambda>market_data_up.
       and_then (bump_spot md d (- bump_S)) (\<lambda>market_data_down.
       and_then (price base_model opt d market_data_up) (\<lambda>P_up.
       and_then (price base_model opt d market_data_down) (\<lambda>P_down.
         if bump_S = 0 then Inl ZeroDivisionError
         else
           let bump_v = 0.01;
               market_data_vol_up = bump_vol md d opt bump_v in
           and_then (price base_model opt d market_data_vol_up) (\<lambda>P_vol_up.
             let date_next = d + 1;
                 theta_v = (case price base_model opt date_next md of
                              Inl err \<Rightarrow> 0
                            | Inr P_next \<Rightarrow> P_next - P0);
                 bump_r = 0.01;
                 market_data_r_up = bump_rate md d bump_r in
             and_then (price base_model opt d market_data_r_up) (\<lambda>P_r_up.
               Inr \<lparr>delta = (P_up - P_down) / (2 * bump_S),
                    gamma = (P_up - 2 * P0 + P_down) / (bump_S\<^sup>2),
                    vega = (P_vol_up - P0) / 1,
                    theta = theta_v,
                    rho = (P_r_up - P0) / 1\<rparr>))))))))"

definition SurfaceGreeksModel :: "PricingModel \<Rightarrow> real \<Rightarrow> PricingModel" where
  "SurfaceGreeksModel base_model bump_size =
     \<lparr>price = SurfaceGreeks_price base_model,
      greeks = SurfaceGreeks_greeks base_model bump_size\<rparr>"

section \<open>instruments.py: valuation of legs and strategies\<close>

definition OptionLeg_price ::
  "OptionLeg \<Rightarrow> int \<Rightarrow> MarketData \<Rightarrow> PricingModel \<Rightarrow> py_error + real" where
  "OptionLeg_price leg d md m =
     and_then (price m (contract leg) d md)
       (\<lambda>option_price. Inr (option_price * quantity leg * contract_size (contract leg)))"

definition scale_greeks :: "Greeks \<Rightarrow> real \<Rightarrow> real \<Rightarrow> Greeks" where
  "scale_greeks g qty csize =
     \<lparr>delta = delta g * qty * csize, gamma = gamma g * qty * csize,
      vega = vega g * qty * csize, theta = theta g * qty * csize,
      rho = rho g * qty * csize\<rparr>"

definition OptionLeg_greeks ::
  "OptionLeg \<Rightarrow> int \<Rightarrow> MarketData \<Rightarrow> PricingModel \<Rightarrow> py_error + Greeks" where
  "OptionLeg_greeks leg d md m =
     and_then (greeks m (contract leg) d md)
       (\<lambda>g. Inr (scale_greeks g (quantity leg) (contract_size (contract leg))))"

definition zero_greeks :: Greeks where
  "zero_greeks = \<lparr>delta = 0, gamma = 0, vega = 0, theta = 0, rho = 0\<rparr>"

definition add_greeks :: "Greeks \<Rightarrow> Greeks \<Rightarrow> Greeks" where
  "add_greeks a b =
     \<lparr>delta = delta a + delta b, gamma = gamma a + gamma b, vega = vega a + vega b,
      theta = theta a + theta b, rho = rho a + rho b\<rparr>"

text \<open>The key-by-key accumulation of the Greeks dicts, started at \<open>acc\<close>.\<close>

fun greeks_from ::
  "Greeks \<Rightarrow> ('a \<Rightarrow> py_error + Greeks) \<Rightarrow> 'a list \<Rightarrow> py_error + Greeks" where
  "greeks_from acc f [] = Inr acc"
| "greeks_from acc f (x # xs) = and_then (f x) (\<lambda>g. greeks_from (add_greeks acc g) f xs)"

definition OptionStrategy_value ::
  "OptionStrategy \<Rightarrow> int \<Rightarrow> MarketData \<Rightarrow> PricingModel \<Rightarrow> py_error + real" where
  "OptionStrategy_value s d md m = sum_from 0 (\<lambda>leg. OptionLeg_price leg d md m) (legs s)"

definition OptionStrategy_greeks ::
  "OptionStrategy \<Rightarrow> int \<Rightarrow> MarketData \<Rightarrow> PricingModel \<Rightarrow> py_error + Greeks" where
  "OptionStrategy_greeks s d md m =
     (if legs s = [] then Inr zero_greeks
      else greeks_from zero_greeks (\<lambda>leg. OptionLeg_greeks leg d md m) (legs s))"

section \<open>instruments.py: the portfolio\<close>

text \<open>A row of the trade ledger; the fields are the keys of the dict, prefixed.\<close>

record Trade =
  t_date :: int
  t_description :: string
  t_cash_flow :: real
  t_strategy_index :: "nat option"
  t_cash_balance :: real

record Portfolio =
  initial_cash :: real
  cash :: real
  strategies :: "OptionStrategy list"
  trade_history :: "Trade list"

definition Portfolio_init :: "real \<Rightarrow> Portfolio" where
  "Portfolio_init c = \<lparr>initial_cash = c, cash = c, strategies = [], trade_history = []\<rparr>"

definition add_strategy :: "Portfolio \<Rightarrow> OptionStrategy \<Rightarrow> Portfolio" where
  "add_strategy p s = p\<lparr>strategies := strategies p @ [s]\<rparr>"

text \<open>\<open>pop(index)\<close> under the guard \<open>0 <= index < len(self.strategies)\<close>.\<close>

definition remove_strategy :: "Portfolio \<Rightarrow> nat \<Rightarrow> Portfolio" where
  "remove_strategy p i =
     (if i < length (strategies p)
      then p\<lparr>strategies := take i (strategies p) @ drop (Suc i) (strategies p)\<rparr>
      else p)"

definition Portfolio_value ::
  "Portfolio \<Rightarrow> int \<Rightarrow> MarketData \<Rightarrow> PricingModel \<Rightarrow> py_error + real" where
  "Portfolio_value p d md m =
     and_then (sum_from 0 (\<lambda>s. OptionStrategy_value s d md m) (strategies p))
       (\<lambda>strategies_value. Inr (cash p + strategies_value))"

definition Portfolio_greeks ::
  "Portfolio \<Rightarrow> int \<Rightarrow> MarketData \<Rightarrow> PricingModel \<Rightarrow> py_error + Greeks" where
  "Portfolio_greeks p d md m =
     greeks_from zero_greeks (\<lambda>s. OptionStrategy_greeks s d md m) (strategies p)"

definition record_trade ::
  "Portfolio \<Rightarrow> int \<Rightarrow> string \<Rightarrow> real \<Rightarrow> nat option \<Rightarrow> Portfolio" where
  "record_trade p d description cash_flow strategy_index =
     (let new_cash = cash p + cash_flow in
      p\<lparr>cash := new_cash,
        trade_history := trade_history p @
          [\<lparr>t_date = d, t_description = description, t_cash_flow = cash_flow,
            t_strategy_index = strategy_index, t_cash_balance = new_cash\<rparr>]\<rparr>)"

section \<open>backtest.py: the engine\<close>

record BacktestConfig =
  start_date :: int
  end_date :: int
  initial_capital :: real
  transaction_cost_per_contract :: real
  transaction_cost_pct :: real
  slippage_bps :: real
  model :: PricingModel

record Attribution =
  pnl_delta :: real
  pnl_gamma :: real
  pnl_vega :: real
  pnl_theta :: real
  pnl_rho :: real
  pnl_residual :: real

text \<open>
  A row of \<open>daily_results\<close>; the fields are the keys of the dict, prefixed, with the
  Greeks and the attribution kept as the two dicts that the row unpacks.
\<close>

record DailyResult =
  r_date :: int
  r_spot :: real
  r_portfolio_value :: real
  r_cash :: real
  r_daily_pnl :: real
  r_total_return :: real
  r_greeks :: Greeks
  r_attribution :: Attribution
  r_num_strategies :: nat

record BacktestEngine =
  market_data :: MarketData
  config :: BacktestConfig
  portfolio :: Portfolio
  daily_results :: "DailyResult list"
  current_date :: "int option"
  prev_portfolio_value :: real
  prev_greeks :: Greeks

definition BacktestEngine_init :: "MarketData \<Rightarrow> BacktestConfig \<Rightarrow> BacktestEngine" where
  "BacktestEngine_init md cfg =
     \<lparr>market_data = md, config = cfg, portfolio = Portfolio_init (initial_capital cfg),
      daily_results = [], current_date = None,
      prev_portfolio_value = initial_capital cfg, prev_greeks = zero_greeks\<rparr>"

definition engine_add_strategy ::
  "BacktestEngine \<Rightarrow> OptionStrategy \<Rightarrow> int \<Rightarrow> py_error + BacktestEngine" where
  "engine_add_strategy e s entry_date =
     (let p1 = add_strategy (portfolio e) s in
      and_then (OptionStrategy_value s entry_date (market_data e) (model (config e)))
        (\<lambda>entry_cost.
           let num_contracts = sum_list (map (\<lambda>leg. \<bar>quantity leg\<bar>) (legs s));
               txn_cost = num_contracts * transaction_cost_per_contract (config e)
                          + \<bar>entry_cost\<bar> * transaction_cost_pct (config e);
               total_cost = entry_cost + txn_cost
           in Inr (e\<lparr>portfolio :=
                      record_trade p1 entry_date (''Enter '' @ name s) (- total_cost)
                        (Some (length (strategies p1) - 1))\<rparr>)))"

definition zero_attribution :: Attribution where
  "zero_attribution =
     \<lparr>pnl_delta = 0, pnl_gamma = 0, pnl_vega = 0, pnl_theta = 0, pnl_rho = 0,
      pnl_residual = 0\<rparr>"

text \<open>
  \<open>_calculate_pnl_attribution\<close>. It runs inside \<open>_process_day\<close> before the day's row
  is appended, so \<open>daily_results[-1]\<close> is the last row appended so far.
\<close>

definition calculate_pnl_attribution ::
  "BacktestEngine \<Rightarrow> int \<Rightarrow> real \<Rightarrow> Greeks \<Rightarrow> py_error + Attribution" where
  "calculate_pnl_attribution e d current_spot current_greeks =
     (case current_date e of
        None \<Rightarrow> Inl TypeError
      | Some cd \<Rightarrow>
          (let prev_date = cd - 1 in
           case get_spot (market_data e) prev_date of
             Inl err \<Rightarrow> Inr zero_attribution
           | Inr prev_spot \<Rightarrow>
               (let dS = current_spot - prev_spot;
                    prev_delta = delta (prev_greeks e);
                    prev_gamma = gamma (prev_greeks e);
                    prev_theta = theta (prev_greeks e);
                    p_delta = prev_delta * dS;
                    p_gamma = 0.5 * prev_gamma * dS\<^sup>2;
                    p_theta = prev_theta * 1;
                    p_vega = 0;
                    p_rho = 0;
                    pnl_explained = p_delta + p_gamma + p_theta + p_vega + p_rho;
                    actual_pnl = (if daily_results e \<noteq> []
                                  then r_daily_pnl (last (daily_results e)) else 0);
                    p_residual = actual_pnl - pnl_explained
                in Inr \<lparr>pnl_delta = p_delta, pnl_gamma = p_gamma, pnl_vega = p_vega,
                        pnl_theta = p_theta, pnl_rho = p_rho, pnl_residual = p_residual\<rparr>)))"

text \<open>
  \<open>_handle_expirations\<close>: the inner loop over the legs of strategy \<open>i\<close>, the outer loop
  over \<open>enumerate(self.portfolio.strategies)\<close>, then the removals. The loops carry the
  portfolio (its cash and ledger change) and \<open>strategies_to_remove\<close>.
\<close>

fun settle_legs ::
  "MarketData \<Rightarrow> int \<Rightarrow> string \<Rightarrow> nat \<Rightarrow> OptionLeg list \<Rightarrow> Portfolio \<times> nat list
     \<Rightarrow> py_error + Portfolio \<times> nat list" where
  "settle_legs md d nm i [] st = Inr st"
| "settle_legs md d nm i (leg # rest) st =
     (if expiry (contract leg) \<le> d
      then and_then (get_spot md d) (\<lambda>spot.
             let final_payoff = OptionLeg_payoff leg spot;
                 p1 = (fst st)\<lparr>cash := cash (fst st) + final_payoff\<rparr>;
                 strategies_to_remove =
                   (if i \<notin> set (snd st) then snd st @ [i] else snd st);
                 p2 = record_trade p1 d (''Expiration: '' @ nm) final_payoff (Some i)
             in settle_legs md d nm i rest (p2, strategies_to_remove))
      else settle_legs md d nm i rest st)"

fun settle_strategies ::
  "MarketData \<Rightarrow> int \<Rightarrow> nat \<Rightarrow> OptionStrategy list \<Rightarrow> Portfolio \<times> nat list
     \<Rightarrow> py_error + Portfolio \<times> nat list" where
  "settle_strategies md d i [] st = Inr st"
| "settle_strategies md d i (s # ss) st =
     and_then (settle_legs md d (name s) i (legs s) st) (settle_strategies md d (Suc i) ss)"

definition remove_all :: "nat list \<Rightarrow> Portfolio \<Rightarrow> Portfolio" where
  "remove_all strategies_to_remove p =
     fold (\<lambda>i q. remove_strategy q i) (rev (sort strategies_to_remove)) p"

definition handle_expirations :: "BacktestEngine \<Rightarrow> int \<Rightarrow> py_error + BacktestEngine" where
  "handle_expirations e d =
     and_then (settle_strategies (market_data e) d 0 (strategies (portfolio e)) (portfolio e, []))
       (\<lambda>st. Inr (e\<lparr>portfolio := remove_all (snd st) (fst st)\<rparr>))"

text \<open>
  \<open>_process_day\<close>. The total return divides by the initial capital, which raises (or
  leaves the reals) when that is 0. The first-day test compares the previous portfolio
  value with the initial capital.
\<close>

definition process_day :: "BacktestEngine \<Rightarrow> int \<Rightarrow> py_error + BacktestEngine" where
  "process_day e d =
     and_then (get_spot (market_data e) d) (\<lambda>spot.
     and_then (Portfolio_value (portfolio e) d (market_data e) (model (config e))) (\<lambda>portfolio_value.
     and_then (Portfolio_greeks (portfolio e) d (market_data e) (model (config e))) (\<lambda>portfolio_greeks.
       let daily_pnl = portfolio_value - prev_portfolio_value e in
       if initial_capital (config e) = 0 then Inl ZeroDivisionError
       else
         let total_return =
               (portfolio_value - initial_capital (config e)) / initial_capital (config e) in
         and_then (if prev_portfolio_value e \<noteq> initial_capital (config e)
                   then calculate_pnl_attribution e d spot portfolio_greeks
                   else Inr zero_attribution) (\<lambda>pnl_attribution.
         and_then (handle_expirations e d) (\<lambda>e1.
           let result =
                 \<lparr>r_date = d, r_spot = spot, r_portfolio_value = portfolio_value,
                  r_cash = cash (portfolio e1), r_daily_pnl = daily_pnl,
                  r_total_return = total_return, r_greeks = portfolio_greeks,
                  r_attribution = pnl_attribution,
                  r_num_strategies = length (strategies (portfolio e1))\<rparr>
           in Inr (e1\<lparr>daily_results := daily_results e1 @ [result],
                      prev_portfolio_value := portfolio_value,
                      prev_greeks := portfolio_greeks\<rparr>))))))"

text \<open>The loop of \<open>run\<close> over the trading dates, and \<open>run\<close> up to the engine it leaves.\<close>

fun run_days :: "BacktestEngine \<Rightarrow> int list \<Rightarrow> py_error + BacktestEngine" where
  "run_days e [] = Inr e"
| "run_days e (d # ds) =
     and_then (process_day (e\<lparr>current_date := Some d\<rparr>) d) (\<lambda>e1. run_days e1 ds)"

definition trading_dates :: "BacktestEngine \<Rightarrow> int list" where
  "trading_dates e =
     filter (\<lambda>d. start_date (config e) \<le> d \<and> d \<le> end_date (config e))
       (map fst (spot_data (market_data e)))"

definition run :: "BacktestEngine \<Rightarrow> py_error + BacktestEngine" where
  "run e = run_days e (trading_dates e)"

section \<open>Vocabulary of the statements\<close>

text \<open>The test \<open>leg.contract.expiry <= date\<close> of the expiration handler.\<close>

definition leg_expired :: "int \<Rightarrow> OptionLeg \<Rightarrow> bool" where
  "leg_expired d leg = (expiry (contract leg) \<le> d)"

definition has_expired_leg :: "int \<Rightarrow> OptionStrategy \<Rightarrow> bool" where
  "has_expired_leg d s = list_ex (leg_expired d) (legs s)"

text \<open>The legs the handler settles, in the order of its two loops.\<close>

definition expired_legs :: "int \<Rightarrow> OptionStrategy list \<Rightarrow> OptionLeg list" where
  "expired_legs d ss = filter (leg_expired d) (concat (map legs ss))"

text \<open>What \<open>remove_strategy\<close> does to the list of strategies.\<close>

definition remove_at :: "nat \<Rightarrow> 'a list \<Rightarrow> 'a list" where
  "remove_at i xs = (if i < length xs then take i xs @ drop (Suc i) xs else xs)"

text \<open>The sum of the six attribution components of a row.\<close>

definition attribution_total :: "Attribution \<Rightarrow> real" where
  "attribution_total a =
     pnl_delta a + pnl_gamma a + pnl_vega a + pnl_theta a + pnl_rho a + pnl_residual a"

text \<open>The call price minus the put price of the contract, both from \<open>BlackScholesModel.price\<close>.\<close>

definition call_minus_put ::
  "(real \<Rightarrow> real) \<Rightarrow> bool \<Rightarrow> OptionContract \<Rightarrow> int \<Rightarrow> MarketData \<Rightarrow> py_error + real" where
  "call_minus_put norm_cdf use_market_iv opt d md =
     and_then (BlackScholes_price norm_cdf use_market_iv (opt\<lparr>option_type := Call\<rparr>) d md) (\<lambda>c.
     and_then (BlackScholes_price norm_cdf use_market_iv (opt\<lparr>option_type := Put\<rparr>) d md) (\<lambda>p.
       Inr (c - p)))"

text \<open>A sequence of calls of \<open>record_trade\<close>, each (date, description, cash flow, index).\<close>

fun record_trades ::
  "Portfolio \<Rightarrow> (int \<times> string \<times> real \<times> nat option) list \<Rightarrow> Portfolio" where
  "record_trades p [] = p"
| "record_trades p ((d, description, cash_flow, strategy_index) # rest) =
     record_trades (record_trade p d description cash_flow strategy_index) rest"

section \<open>Concrete inputs\<close>

text \<open>
  Market data as the constructor builds it when no rates and yields are given: the flat
  5 percent rate and the zero yield on the index of the spot data, and no surface.
\<close>

definition flat_market :: "(int \<times> real) list \<Rightarrow> MarketData" where
  "flat_market spots =
     \<lparr>spot_data = spots, vol_surfaces = [],
      risk_free_rates = map (\<lambda>row. (fst row, 0.05)) spots,
      dividend_yields = map (\<lambda>row. (fst row, 0)) spots\<rparr>"

definition spy_option :: "option_type \<Rightarrow> real \<Rightarrow> int \<Rightarrow> OptionContract" where
  "spy_option ty k e =
     \<lparr>underlying = ''SPY'', option_type = ty, style = European, strike = k, expiry = e,
      contract_size = 100\<rparr>"

text \<open>One long call, strike 100, expiring on day 0.\<close>

definition long_call :: OptionStrategy where
  "long_call =
     \<lparr>name = ''Long call'',
      legs = [\<lparr>contract = spy_option Call 100 0, quantity = 1, entry_price = None\<rparr>]\<rparr>"

text \<open>A calendar spread: short the call expiring on day 0, long the call expiring on day 30.\<close>

definition calendar_spread :: OptionStrategy where
  "calendar_spread =
     \<lparr>name = ''Calendar'',
      legs = [\<lparr>contract = spy_option Call 100 0, quantity = - 1, entry_price = None\<rparr>,
              \<lparr>contract = spy_option Call 100 30, quantity = 1, entry_price = None\<rparr>]\<rparr>"

text \<open>A configuration over days 0 to \<open>last_day\<close> with 100000 of capital.\<close>

definition backtest_config ::
  "(real \<Rightarrow> real) \<Rightarrow> int \<Rightarrow> real \<Rightarrow> real \<Rightarrow> BacktestConfig" where
  "backtest_config norm_cdf last_day per_contract pct =
     \<lparr>start_date = 0, end_date = last_day, initial_capital = 100000,
      transaction_cost_per_contract = per_contract, transaction_cost_pct = pct,
      slippage_bps = 1, model = BlackScholesModel norm_cdf True\<rparr>"

text \<open>
  A distribution function with the two properties of the normal distribution function
  that the parity theorem assumes; it instantiates \<open>norm_cdf\<close> where a closed term is
  needed.
\<close>

definition gauss_tail_cdf :: "real \<Rightarrow> real" where
  "gauss_tail_cdf x =
     (if x \<le> 0 then exp (- (x\<^sup>2) / 2) / 2 else 1 - exp (- (x\<^sup>2) / 2) / 2)"

text \<open>An engine whose portfolio holds one strategy, added with \<open>Portfolio.add_strategy\<close>.\<close>

definition holding :: "MarketData \<Rightarrow> BacktestConfig \<Rightarrow> OptionStrategy \<Rightarrow> BacktestEngine" where
  "holding md cfg s =
     (BacktestEngine_init md cfg)
       \<lparr>portfolio := add_strategy (Portfolio_init (initial_capital cfg)) s\<rparr>"

text \<open>Surfaces with the same volatility at every sample, and a market with two of them.\<close>

definition flat_surface :: "int \<Rightarrow> real \<Rightarrow> VolSurface" where
  "flat_surface d v =
     \<lparr>date = d, vol_data = [(90, 30, v), (110, 30, v), (90, 60, v), (110, 60, v)],
      interpolator = (\<lambda>k t. Returns (Num v))\<rparr>"

definition two_surface_market :: MarketData where
  "two_surface_market =
     (flat_market [(0, 100), (8, 100), (10, 100)])
       \<lparr>vol_surfaces := [(0, flat_surface 0 0.2), (10, flat_surface 10 0.3)]\<rparr>"

text \<open>
  A surface built with \<open>interpolation_method='linear'\<close> on four samples at 20 percent:
  inside their convex hull the interpolant returns 0.2, outside it returns NaN.
\<close>

definition linear_surface :: VolSurface where
  "linear_surface =
     \<lparr>date = 0, vol_data = [(90, 30, 0.2), (110, 30, 0.2), (90, 60, 0.2), (110, 60, 0.2)],
      interpolator = (\<lambda>k t. if 90 \<le> k \<and> k \<le> 110 \<and> 30 \<le> t \<and> t \<le> 60
                               then Returns (Num 0.2) else Returns NaN)\<rparr>"

section \<open>Basic facts\<close>

lemma and_then_Inl: "and_then (Inl err) f = Inl err"
  by (simp add: and_then_def)

lemma and_then_Inr: "and_then (Inr v) f = f v"
  by (simp add: and_then_def)

lemma and_then_InrD: "and_then m f = Inr y \<Longrightarrow> \<exists>v. m = Inr v \<and> f v = Inr y"
  by (cases m) (simp_all add: and_then_def)

lemmas market_simps =
  flat_market_def get_spot_def get_rate_def get_dividend_yield_def lookup_asof_def

lemmas valuation_simps =
  and_then_Inl and_then_Inr BlackScholesModel_def BlackScholes_price_def
  BlackScholes_greeks_def OptionStrategy_value_def OptionStrategy_greeks_def
  OptionLeg_price_def OptionLeg_greeks_def Portfolio_value_def Portfolio_greeks_def
  scale_greeks_def zero_greeks_def add_greeks_def intrinsic_value_def is_call_def
  OptionLeg_payoff_def OptionContract_payoff_def spy_option_def

lemmas portfolio_simps =
  record_trade_def add_strategy_def remove_strategy_def remove_all_def Portfolio_init_def

lemmas engine_simps =
  engine_add_strategy_def BacktestEngine_init_def backtest_config_def long_call_def
  handle_expirations_def run_def trading_dates_def process_day_def
  calculate_pnl_attribution_def zero_attribution_def attribution_total_def
lemma record_trade_fields:
  "strategies (record_trade p d ds cf si) = strategies p"
  "initial_cash (record_trade p d ds cf si) = initial_cash p"
  "cash (record_trade p d ds cf si) = cash p + cf"
  "trade_history (record_trade p d ds cf si) = trade_history p @
     [\<lparr>t_date = d, t_description = ds, t_cash_flow = cf, t_strategy_index = si,
       t_cash_balance = cash p + cf\<rparr>]"
  by (simp_all add: record_trade_def Let_def)

section \<open>P\&L attribution\<close>

text \<open>
  Whenever the attribution is computed, its six components add up to the daily P\&L of
  the last row appended so far, which inside \<open>_process_day\<close> is the row of the day
  before.
\<close>

lemma attribution_total_is_last_row_pnl:
  assumes "current_date e = Some cd" and "get_spot (market_data e) (cd - 1) = Inr prev_spot"
  shows "\<exists>a. calculate_pnl_attribution e d s g = Inr a
           \<and> attribution_total a =
               (if daily_results e \<noteq> [] then r_daily_pnl (last (daily_results e)) else 0)"
  using assms by (simp add: calculate_pnl_attribution_def Let_def attribution_total_def)

text \<open>
  C1 (fails on the code). One long call struck at 100 that expires worthless on day 0
  (spot 90 on days 0 and 1), entered with the default costs (0.65 per contract). Day 0 has
  a P\&L of -0.65 and the all-zero attribution; day 1 has a P\&L of 0, and its six
  components add up to -0.65, the P\&L of day 0: the residual closes the sum on
  \<open>daily_results[-1]\<close>, the previous row, not on the day's own P\&L.
\<close>

theorem attribution_closes_on_previous_day:
  "map_sum id (\<lambda>e. map (\<lambda>row. (r_daily_pnl row, attribution_total (r_attribution row)))
                      (daily_results e))
     (and_then
        (engine_add_strategy
           (BacktestEngine_init (flat_market [(0, 90), (1, 90)])
              (backtest_config norm_cdf 1 0.65 0.0001)) long_call 0)
        run)
   = Inr [(- 0.65, 0), (0, - 0.65)]"
  by (simp add: engine_simps market_simps valuation_simps portfolio_simps Let_def)

section \<open>Bump and revalue\<close>

text \<open>
  C2 (fails on the code). The bump helpers return the market data unchanged, so the
  prices "up" and "down" are the base price: for a call struck at 100 at its expiry with
  spot 110, every Greek of \<open>SurfaceGreeksModel\<close> is 0, while the base model's prices at
  spot 110 + 1.1 and 110 - 1.1 are 11.1 and 8.9, a central difference of 1.
\<close>

theorem bump_helpers_leave_market_unshocked:
  "bump_spot (flat_market [(0, 110)]) 0 1.1 = Inr (flat_market [(0, 110)])
   \<and> bump_vol (flat_market [(0, 110)]) 0 (spy_option Call 100 0) 0.01 = flat_market [(0, 110)]
   \<and> bump_rate (flat_market [(0, 110)]) 0 0.01 = flat_market [(0, 110)]
   \<and> SurfaceGreeks_greeks (BlackScholesModel norm_cdf True) 0.01 (spy_option Call 100 0) 0
        (flat_market [(0, 110)])
      = Inr \<lparr>delta = 0, gamma = 0, vega = 0, theta = 0, rho = 0\<rparr>
   \<and> BlackScholes_price norm_cdf True (spy_option Call 100 0) 0 (flat_market [(0, 110 + 1.1)])
      = Inr 11.1
   \<and> BlackScholes_price norm_cdf True (spy_option Call 100 0) 0 (flat_market [(0, 110 - 1.1)])
      = Inr 8.9
   \<and> (11.1 - 8.9) / (2 * 1.1) = (1::real)"
  by (simp add: bump_spot_def bump_vol_def bump_rate_def SurfaceGreeks_greeks_def
      SurfaceGreeks_price_def market_simps valuation_simps Let_def)

section \<open>Cash and the trade ledger\<close>

text \<open>Calls of \<open>record_trade\<close> alone keep the cash at the initial cash plus the flows.\<close>

lemma record_trades_cash:
  "cash (record_trades p ts) = cash p + sum_list (map (\<lambda>t. fst (snd (snd t))) ts)
   \<and> initial_cash (record_trades p ts) = initial_cash p
   \<and> map t_cash_flow (trade_history (record_trades p ts)) =
       map t_cash_flow (trade_history p) @ map (\<lambda>t. fst (snd (snd t))) ts"
  by (induction p ts rule: record_trades.induct) (simp_all add: record_trade_fields)

lemma record_trades_conserve_cash:
  "cash (record_trades (Portfolio_init c) ts) =
     initial_cash (record_trades (Portfolio_init c) ts)
       + sum_list (map t_cash_flow (trade_history (record_trades (Portfolio_init c) ts)))"
  by (simp add: record_trades_cash) (simp add: Portfolio_init_def)

text \<open>
  C3 (fails on the code). A long call struck at 100, entered on day 0 at spot 110 with no
  transaction costs and expiring that day: the ledger holds the flows -1000 and 1000, so
  the initial cash plus the flows is 100000, and the cash is 101000. The handler adds the
  payoff to the cash itself and then records the trade, which adds it again.
\<close>

theorem expiration_credits_cash_twice:
  "map_sum id (\<lambda>e. (cash (portfolio e),
                     initial_cash (portfolio e)
                       + sum_list (map t_cash_flow (trade_history (portfolio e))),
                     map t_cash_flow (trade_history (portfolio e))))
     (and_then
        (engine_add_strategy
           (BacktestEngine_init (flat_market [(0, 110), (1, 120)])
              (backtest_config norm_cdf 1 0 0)) long_call 0)
        (\<lambda>e. handle_expirations e 0))
   = Inr (101000, 100000, [- 1000, 1000])"
  by (simp add: engine_simps market_simps valuation_simps portfolio_simps Let_def)

section \<open>Black-Scholes at and after expiry\<close>

lemma BlackScholes_at_expiry:
  assumes "get_spot md d = Inr S" and "get_rate md d = Inr r"
    and "get_dividend_yield md d = Inr q" and "expiry opt \<le> d"
  shows "BlackScholes_price norm_cdf u opt d md = Inr (intrinsic_value opt S)"
    and "BlackScholes_greeks norm_cdf u opt d md =
           Inr \<lparr>delta = (if intrinsic_value opt S > 0 then 1 else 0),
                gamma = 0, vega = 0, theta = 0, rho = 0\<rparr>"
  using assms by (simp_all add: BlackScholes_price_def BlackScholes_greeks_def and_then_Inr)

text \<open>
  C4 (fails on the code). A put struck at 100 valued at its expiry with spot 90: the
  price is the intrinsic value 10 and the other Greeks are 0, but the delta is 1, which is
  not in {-1, 0}. The branch for \<open>T <= 0\<close> sets the delta to 1 whenever the intrinsic
  value is positive, for a put as for a call.
\<close>

theorem expired_put_delta_is_plus_one:
  "BlackScholes_greeks norm_cdf use_market_iv (spy_option Put 100 0) 0 (flat_market [(0, 90)])
     = Inr \<lparr>delta = 1, gamma = 0, vega = 0, theta = 0, rho = 0\<rparr>
   \<and> BlackScholes_price norm_cdf use_market_iv (spy_option Put 100 0) 0 (flat_market [(0, 90)])
     = Inr 10"
  by (simp add: market_simps valuation_simps)

section \<open>The surface behind an implied volatility\<close>

lemma min_key_from_props:
  "min_key_from f best xs \<in> set (best # xs) \<and>
   (\<forall>x \<in> set (best # xs). f (min_key_from f best xs) \<le> f x)"
proof (induction xs arbitrary: best)
  case Nil
  then show ?case by simp
next
  case (Cons x xs)
  let ?b = "if f x < f best then x else best"
  have "f ?b \<le> f best" "f ?b \<le> f x" by auto
  then show ?case using Cons.IH [of ?b] by (auto intro: order_trans)
qed

lemma surface_dates_set: "set (surface_dates md) = fst ` set (vol_surfaces md)"
  by (simp add: surface_dates_def)

text \<open>
  C5 (as amended). When the query date has no surface of its own and there is some
  surface, \<open>get_implied_vol\<close>, for every spot argument, reads the surface whose date
  is closest to the query date in absolute days; when no surface is dated after the query
  date, that is the most recent prior one. With a spot argument that is a number other
  than 0 the result is that surface's \<open>iv\<close>; with the spot omitted or 0 the spot of
  the query date is looked up first, and the result is that surface's \<open>iv\<close> unless
  the lookup raises.
\<close>

theorem fallback_surface_is_nearest:
  assumes "map_of (vol_surfaces md) d = None" and "vol_surfaces md \<noteq> []"
  shows "\<exists>sd surface.
           nearest_date md d = Some sd \<and> map_of (vol_surfaces md) sd = Some surface
         \<and> get_implied_vol md d k e spot =
             (if spot = None \<or> spot = Some 0
              then and_then (get_spot md d) (\<lambda>s. iv surface k (Timestamp e))
              else iv surface k (Timestamp e))
         \<and> (\<forall>x \<in> fst ` set (vol_surfaces md). \<bar>sd - d\<bar> \<le> \<bar>x - d\<bar>)
         \<and> ((\<forall>x \<in> fst ` set (vol_surfaces md). x \<le> d)
              \<longrightarrow> sd \<le> d \<and> (\<forall>x \<in> fst ` set (vol_surfaces md). x \<le> sd))"
proof -
  have ne: "surface_dates md \<noteq> []"
    using assms(2) surface_dates_set [of md] by (metis image_is_empty set_empty)
  then obtain x xs where xs: "surface_dates md = x # xs" by (cases "surface_dates md") auto
  let ?sd = "min_key_from (\<lambda>sd. \<bar>sd - d\<bar>) x xs"
  have nd: "nearest_date md d = Some ?sd"
    using assms(1) xs by (simp add: nearest_date_def)
  have mem: "?sd \<in> fst ` set (vol_surfaces md)"
    and least: "\<forall>y \<in> fst ` set (vol_surfaces md). \<bar>?sd - d\<bar> \<le> \<bar>y - d\<bar>"
    using min_key_from_props [of "\<lambda>sd. \<bar>sd - d\<bar>" x xs] surface_dates_set [of md] xs
    by auto
  from mem obtain surface where sf: "map_of (vol_surfaces md) ?sd = Some surface"
    by (metis domD dom_map_of_conv_image_fst)
  have giv: "get_implied_vol md d k e spot =
      (if spot = None \<or> spot = Some 0
       then and_then (get_spot md d) (\<lambda>s. iv surface k (Timestamp e))
       else iv surface k (Timestamp e))"
    by (simp add: get_implied_vol_def nd sf and_then_def)
  have prior: "(\<forall>y \<in> fst ` set (vol_surfaces md). y \<le> d)
      \<longrightarrow> ?sd \<le> d \<and> (\<forall>y \<in> fst ` set (vol_surfaces md). y \<le> ?sd)"
  proof (intro impI conjI ballI)
    assume all: "\<forall>y \<in> fst ` set (vol_surfaces md). y \<le> d"
    show "?sd \<le> d" using all mem by blast
    fix y assume y: "y \<in> fst ` set (vol_surfaces md)"
    have "\<bar>?sd - d\<bar> \<le> \<bar>y - d\<bar>" using least y by blast
    moreover have "y \<le> d" "?sd \<le> d" using all y mem by blast+
    ultimately show "y \<le> ?sd" by linarith
  qed
  show ?thesis using nd sf giv least prior by blast
qed

theorem fallback_surface_is_nearest_witness:
  "\<exists>sd surface. nearest_date two_surface_market 8 = Some sd
         \<and> \<bar>sd - 8\<bar> \<le> \<bar>0 - 8\<bar> \<and> \<bar>sd - 8\<bar> \<le> \<bar>10 - 8\<bar>
         \<and> get_implied_vol two_surface_market 8 100 40 None = iv surface 100 (Timestamp 40)
         \<and> get_implied_vol two_surface_market 8 100 40 (Some 0) = iv surface 100 (Timestamp 40)
         \<and> get_implied_vol two_surface_market 8 100 40 (Some 100)
             = iv surface 100 (Timestamp 40)"
proof -
  have h1: "map_of (vol_surfaces two_surface_market) 8 = None"
    by (simp add: two_surface_market_def flat_market_def)
  have h2: "vol_surfaces two_surface_market \<noteq> []"
    by (simp add: two_surface_market_def flat_market_def)
  have keys: "fst ` set (vol_surfaces two_surface_market) = {0, 10}"
    by (simp add: two_surface_market_def flat_market_def)
  have spot: "get_spot two_surface_market 8 = Inr 100"
    by (simp add: two_surface_market_def market_simps)
  obtain sd surface where
    nd: "nearest_date two_surface_market 8 = Some sd"
    and near: "\<forall>x \<in> fst ` set (vol_surfaces two_surface_market). \<bar>sd - 8\<bar> \<le> \<bar>x - 8\<bar>"
    and giv: "\<And>spot. get_implied_vol two_surface_market 8 100 40 spot =
             (if spot = None \<or> spot = Some 0
              then and_then (get_spot two_surface_market 8) (\<lambda>s. iv surface 100 (Timestamp 40))
              else iv surface 100 (Timestamp 40))"
  proof -
    from fallback_surface_is_nearest [OF h1 h2, of 100 40 None] obtain sd surface where
      a: "nearest_date two_surface_market 8 = Some sd"
      and b: "map_of (vol_surfaces two_surface_market) sd = Some surface"
      and c: "\<forall>x \<in> fst ` set (vol_surfaces two_surface_market). \<bar>sd - 8\<bar> \<le> \<bar>x - 8\<bar>"
      by blast
    have "get_implied_vol two_surface_market 8 100 40 spot =
             (if spot = None \<or> spot = Some 0
              then and_then (get_spot two_surface_market 8) (\<lambda>s. iv surface 100 (Timestamp 40))
              else iv surface 100 (Timestamp 40))" for spot
      using fallback_surface_is_nearest [OF h1 h2, of 100 40 spot] a b by auto
    then show ?thesis using that a c by blast
  qed
  have "\<bar>sd - 8\<bar> \<le> \<bar>0 - 8\<bar>" "\<bar>sd - 8\<bar> \<le> \<bar>10 - 8\<bar>"
    using near unfolding keys by auto
  moreover have "get_implied_vol two_surface_market 8 100 40 None = iv surface 100 (Timestamp 40)"
    "get_implied_vol two_surface_market 8 100 40 (Some 0) = iv surface 100 (Timestamp 40)"
    "get_implied_vol two_surface_market 8 100 40 (Some 100) = iv surface 100 (Timestamp 40)"
    by (simp_all add: giv spot and_then_Inr)
  ultimately show ?thesis using nd by blast
qed

text \<open>
  C5 (as stated, fails). Surfaces dated day 0 (20 percent) and day 10 (30 percent), a
  query on day 8: day 8 has no surface, day 0 is a prior surface, and the volatility
  returned is that of day 10, a surface dated after the query.
\<close>

theorem fallback_takes_future_surface:
  "map_of (vol_surfaces two_surface_market) 8 = None
   \<and> map_of (vol_surfaces two_surface_market) 0 = Some (flat_surface 0 0.2)
   \<and> nearest_date two_surface_market 8 = Some 10
   \<and> get_implied_vol two_surface_market 8 100 40 (Some 100) = Inr (Num 0.3)"
  by (simp add: two_surface_market_def flat_market_def nearest_date_def surface_dates_def
      get_implied_vol_def iv_def flat_surface_def np_clip_def)

section \<open>The clamp of the surface\<close>

text \<open>What \<open>iv\<close> returns on each of its paths when the interpolant gives a number or raises.\<close>

lemma iv_cases:
  "days_to_expiry \<le> 0 \<Longrightarrow> iv s k (Days days_to_expiry) = Inr (Num 0)"
  "0 < days_to_expiry \<Longrightarrow> interpolator s k days_to_expiry = Returns (Num v) \<Longrightarrow>
     iv s k (Days days_to_expiry) = Inr (Num (min 5 (max v 0.01)))
     \<and> 0.01 \<le> min 5 (max v 0.01) \<and> min 5 (max v 0.01) \<le> 5"
  "0 < days_to_expiry \<Longrightarrow> interpolator s k days_to_expiry = Raises \<Longrightarrow>
     idxmin (distances s k days_to_expiry) = Inr n \<Longrightarrow>
     iv s k (Days days_to_expiry) = Inr (Num (snd (snd (vol_data s ! n))))"
  by (simp_all add: iv_def np_clip_def)

text \<open>
  C6 (fails on the code). On the linear surface, strike 200 at 30 days lies outside the
  convex hull of the samples: the interpolant returns NaN without raising, the clamp
  leaves NaN as it is, and \<open>iv\<close> returns NaN, which is not in [0.01, 5.0].
\<close>

theorem iv_returns_nan: "iv linear_surface 200 (Days 30) = Inr NaN"
  by (simp add: iv_def linear_surface_def np_clip_def)

section \<open>The first-day test\<close>

text \<open>
  C7 (fails on the code). A long call struck at 100, entered on day 0 at spot 110 with no
  transaction costs and expiring that day; spot 120 on day 1. The value on day 0 equals
  the initial capital, so on day 1, the second processed day, the test
  \<open>prev_portfolio_value != initial_capital\<close> fails and the row gets the all-zero
  attribution, where the attribution computed in that state has a delta component of
  1000 and a residual of -1000.
\<close>

theorem second_day_attribution_skipped:
  "map_sum id (\<lambda>e. map r_attribution (daily_results e))
     (and_then
        (engine_add_strategy
           (BacktestEngine_init (flat_market [(0, 110), (1, 120)])
              (backtest_config norm_cdf 1 0 0)) long_call 0)
        run)
   = Inr [zero_attribution, zero_attribution]
   \<and> and_then
        (engine_add_strategy
           (BacktestEngine_init (flat_market [(0, 110), (1, 120)])
              (backtest_config norm_cdf 1 0 0)) long_call 0)
        (\<lambda>e. and_then (process_day (e\<lparr>current_date := Some 0\<rparr>) 0)
          (\<lambda>e1. calculate_pnl_attribution (e1\<lparr>current_date := Some 1\<rparr>) 1 120 zero_greeks))
     = Inr \<lparr>pnl_delta = 1000, pnl_gamma = 0, pnl_vega = 0, pnl_theta = 0, pnl_rho = 0,
            pnl_residual = - 1000\<rparr>"
  by (simp add: engine_simps market_simps valuation_simps portfolio_simps Let_def)

section \<open>Expirations\<close>

lemma strategies_remove_strategy:
  "strategies (remove_strategy p i) = remove_at i (strategies p)"
  by (simp add: remove_strategy_def remove_at_def)

lemma strategies_fold_remove:
  "strategies (fold (\<lambda>i q. remove_strategy q i) is p) = fold remove_at is (strategies p)"
  by (induction "is" arbitrary: p) (simp_all add: strategies_remove_strategy)

lemma cash_fold_remove:
  "cash (fold (\<lambda>i q. remove_strategy q i) is p) = cash p \<and>
   trade_history (fold (\<lambda>i q. remove_strategy q i) is p) = trade_history p \<and>
   initial_cash (fold (\<lambda>i q. remove_strategy q i) is p) = initial_cash p"
  by (induction "is" arbitrary: p) (simp_all add: remove_strategy_def)

lemma remove_at_append:
  "i < length xs \<Longrightarrow> remove_at i (xs @ ys) = remove_at i xs @ ys"
  by (simp add: remove_at_def)

lemma remove_at_last: "remove_at (length xs) (xs @ [x]) = xs"
  by (simp add: remove_at_def)

lemma length_remove_at: "i < length xs \<Longrightarrow> length (remove_at i xs) = length xs - 1"
  by (simp add: remove_at_def)

text \<open>
  Removing at descending indices, all inside a prefix of the list, leaves the rest of the
  list alone.
\<close>

lemma fold_remove_at_append:
  "sorted (rev is) \<Longrightarrow> distinct is \<Longrightarrow> \<forall>i \<in> set is. i < length xs \<Longrightarrow>
     fold remove_at is (xs @ ys) = fold remove_at is xs @ ys"
proof (induction "is" arbitrary: xs)
  case Nil
  then show ?case by simp
next
  case (Cons i rest)
  have i: "i < length xs" using Cons.prems by simp
  have below: "\<forall>j \<in> set rest. j < i"
  proof
    fix j assume j: "j \<in> set rest"
    have "j \<le> i" using Cons.prems(1) j by (simp add: sorted_append)
    moreover have "j \<noteq> i" using Cons.prems(2) j by auto
    ultimately show "j < i" by simp
  qed
  have "\<forall>j \<in> set rest. j < length (remove_at i xs)"
    using below i by (auto simp: length_remove_at)
  moreover have "sorted (rev rest)" "distinct rest"
    using Cons.prems by (auto simp: sorted_append)
  ultimately show ?case
    using Cons.IH [of "remove_at i xs"] i by (simp add: remove_at_append)
qed

lemma fold_remove_at_filter:
  "fold remove_at (rev (filter (\<lambda>i. P (xs ! i)) [0..<length xs])) xs = filter (\<lambda>x. \<not> P x) xs"
proof (induction xs rule: rev_induct)
  case Nil
  then show ?case by simp
next
  case (snoc x xs)
  let ?n = "length xs"
  let ?is = "filter (\<lambda>i. P (xs ! i)) [0..<?n]"
  have idx: "filter (\<lambda>i. P ((xs @ [x]) ! i)) [0..<?n] = ?is"
    by (rule filter_cong) (auto simp: nth_append)
  have props: "sorted (rev (rev ?is))" "distinct (rev ?is)" "\<forall>i \<in> set (rev ?is). i < ?n"
    by (auto simp: sorted_wrt_filter)
  show ?case
  proof (cases "P x")
    case True
    then show ?thesis using snoc.IH by (simp add: idx remove_at_last)
  next
    case False
    then show ?thesis
      using snoc.IH fold_remove_at_append [OF props, of "[x]"] by (simp add: idx)
  qed
qed
lemma settle_legs_result:
  assumes spot: "get_spot md d = Inr spot"
  shows "\<exists>p' new.
     settle_legs md d nm i ls (p, rm) =
       Inr (p', if list_ex (leg_expired d) ls \<and> i \<notin> set rm then rm @ [i] else rm)
     \<and> strategies p' = strategies p \<and> initial_cash p' = initial_cash p
     \<and> cash p' = cash p + 2 * sum_list (map (\<lambda>l. OptionLeg_payoff l spot) (filter (leg_expired d) ls))
     \<and> trade_history p' = trade_history p @ new
     \<and> map t_cash_flow new = map (\<lambda>l. OptionLeg_payoff l spot) (filter (leg_expired d) ls)"
proof (induction ls arbitrary: p rm)
  case Nil
  then show ?case by simp
next
  case (Cons leg rest)
  show ?case
  proof (cases "leg_expired d leg")
    case False
    then show ?thesis using Cons.IH [of p rm] by (simp add: leg_expired_def)
  next
    case True
    let ?pay = "OptionLeg_payoff leg spot"
    let ?p2 = "record_trade (p\<lparr>cash := cash p + ?pay\<rparr>) d (''Expiration: '' @ nm) ?pay (Some i)"
    let ?rm1 = "if i \<notin> set rm then rm @ [i] else rm"
    obtain p' new where
      run: "settle_legs md d nm i rest (?p2, ?rm1) =
              Inr (p', if list_ex (leg_expired d) rest \<and> i \<notin> set ?rm1 then ?rm1 @ [i] else ?rm1)"
      and st: "strategies p' = strategies ?p2" "initial_cash p' = initial_cash ?p2"
      and ca: "cash p' = cash ?p2 + 2 * sum_list (map (\<lambda>l. OptionLeg_payoff l spot) (filter (leg_expired d) rest))"
      and th: "trade_history p' = trade_history ?p2 @ new"
      and fl: "map t_cash_flow new = map (\<lambda>l. OptionLeg_payoff l spot) (filter (leg_expired d) rest)"
      using Cons.IH [of ?p2 ?rm1] by blast
    have step: "settle_legs md d nm i (leg # rest) (p, rm) = settle_legs md d nm i rest (?p2, ?rm1)"
      using True spot by (simp add: leg_expired_def and_then_Inr Let_def)
    have rm_eq: "(if list_ex (leg_expired d) rest \<and> i \<notin> set ?rm1 then ?rm1 @ [i] else ?rm1) =
        (if list_ex (leg_expired d) (leg # rest) \<and> i \<notin> set rm then rm @ [i] else rm)"
      using True by simp
    let ?new = "\<lparr>t_date = d, t_description = ''Expiration: '' @ nm, t_cash_flow = ?pay,
                 t_strategy_index = Some i, t_cash_balance = cash p + ?pay + ?pay\<rparr> # new"
    have "settle_legs md d nm i (leg # rest) (p, rm) =
            Inr (p', if list_ex (leg_expired d) (leg # rest) \<and> i \<notin> set rm then rm @ [i] else rm)"
      using step run rm_eq by simp
    moreover have "strategies p' = strategies p" "initial_cash p' = initial_cash p"
      using st by (simp_all add: record_trade_fields)
    moreover have "cash p' = cash p + 2 * sum_list (map (\<lambda>l. OptionLeg_payoff l spot) (filter (leg_expired d) (leg # rest)))"
      using ca True by (simp add: record_trade_fields)
    moreover have "trade_history p' = trade_history p @ ?new"
      using th by (simp add: record_trade_fields)
    moreover have "map t_cash_flow ?new = map (\<lambda>l. OptionLeg_payoff l spot) (filter (leg_expired d) (leg # rest))"
      using fl True by simp
    ultimately show ?thesis by blast
  qed
qed

lemma filter_upt_Suc:
  "filter (\<lambda>j. P ((x # xs) ! j)) [0..<Suc (length xs)] =
     (if P x then [0] else []) @ map Suc (filter (\<lambda>j. P (xs ! j)) [0..<length xs])"
proof -
  have "[0..<Suc (length xs)] = 0 # map Suc [0..<length xs]"
    by (simp add: upt_conv_Cons map_Suc_upt del: upt_Suc)
  then show ?thesis by (simp add: filter_map comp_def del: upt_Suc)
qed

lemma settle_strategies_result:
  assumes spot: "get_spot md d = Inr spot"
  shows "i \<notin> set rm \<Longrightarrow> (\<forall>j \<in> set rm. j < i) \<Longrightarrow> \<exists>p' new.
     settle_strategies md d i ss (p, rm) =
       Inr (p', rm @ map (\<lambda>j. i + j) (filter (\<lambda>j. has_expired_leg d (ss ! j)) [0..<length ss]))
     \<and> strategies p' = strategies p \<and> initial_cash p' = initial_cash p
     \<and> cash p' = cash p + 2 * sum_list (map (\<lambda>l. OptionLeg_payoff l spot) (expired_legs d ss))
     \<and> trade_history p' = trade_history p @ new
     \<and> map t_cash_flow new = map (\<lambda>l. OptionLeg_payoff l spot) (expired_legs d ss)"
proof (induction ss arbitrary: i p rm)
  case Nil
  then show ?case by (simp add: expired_legs_def)
next
  case (Cons s ss)
  let ?rm1 = "if has_expired_leg d s then rm @ [i] else rm"
  obtain p1 new1 where
    l1: "settle_legs md d (name s) i (legs s) (p, rm) = Inr (p1, ?rm1)"
    and l2: "strategies p1 = strategies p" "initial_cash p1 = initial_cash p"
    and l3: "cash p1 = cash p + 2 * sum_list (map (\<lambda>l. OptionLeg_payoff l spot) (filter (leg_expired d) (legs s)))"
    and l4: "trade_history p1 = trade_history p @ new1"
    and l5: "map t_cash_flow new1 = map (\<lambda>l. OptionLeg_payoff l spot) (filter (leg_expired d) (legs s))"
    using settle_legs_result [OF spot, of "name s" i "legs s" p rm] Cons.prems(1)
    by (auto simp: has_expired_leg_def)
  have fresh: "Suc i \<notin> set ?rm1" "\<forall>j \<in> set ?rm1. j < Suc i"
    using Cons.prems by (auto simp: less_Suc_eq)
  obtain p' new where
    s1: "settle_strategies md d (Suc i) ss (p1, ?rm1) =
           Inr (p', ?rm1 @ map (\<lambda>j. Suc i + j) (filter (\<lambda>j. has_expired_leg d (ss ! j)) [0..<length ss]))"
    and s2: "strategies p' = strategies p1" "initial_cash p' = initial_cash p1"
    and s3: "cash p' = cash p1 + 2 * sum_list (map (\<lambda>l. OptionLeg_payoff l spot) (expired_legs d ss))"
    and s4: "trade_history p' = trade_history p1 @ new"
    and s5: "map t_cash_flow new = map (\<lambda>l. OptionLeg_payoff l spot) (expired_legs d ss)"
    using Cons.IH [OF fresh, of p1] by blast
  have idx: "rm @ map (\<lambda>j. i + j) (filter (\<lambda>j. has_expired_leg d ((s # ss) ! j)) [0..<length (s # ss)])
      = ?rm1 @ map (\<lambda>j. Suc i + j) (filter (\<lambda>j. has_expired_leg d (ss ! j)) [0..<length ss])"
    using filter_upt_Suc [of "has_expired_leg d" s ss] by (simp add: comp_def del: upt_Suc)
  have "settle_strategies md d i (s # ss) (p, rm) =
          Inr (p', rm @ map (\<lambda>j. i + j) (filter (\<lambda>j. has_expired_leg d ((s # ss) ! j)) [0..<length (s # ss)]))"
    using l1 s1 idx by (simp add: and_then_Inr del: upt_Suc)
  moreover have "strategies p' = strategies p" "initial_cash p' = initial_cash p"
    using l2 s2 by simp_all
  moreover have "cash p' = cash p + 2 * sum_list (map (\<lambda>l. OptionLeg_payoff l spot) (expired_legs d (s # ss)))"
    using l3 s3 by (simp add: expired_legs_def)
  moreover have "trade_history p' = trade_history p @ (new1 @ new)"
    using l4 s4 by simp
  moreover have "map t_cash_flow (new1 @ new) = map (\<lambda>l. OptionLeg_payoff l spot) (expired_legs d (s # ss))"
    using l5 s5 by (simp add: expired_legs_def)
  ultimately show ?case by blast
qed

lemma handle_expirations_result:
  assumes spot: "get_spot (market_data e) d = Inr spot"
  shows "\<exists>e' new. handle_expirations e d = Inr e'
     \<and> strategies (portfolio e') = filter (\<lambda>s. \<not> has_expired_leg d s) (strategies (portfolio e))
     \<and> initial_cash (portfolio e') = initial_cash (portfolio e)
     \<and> cash (portfolio e') = cash (portfolio e)
          + 2 * sum_list (map (\<lambda>l. OptionLeg_payoff l spot) (expired_legs d (strategies (portfolio e))))
     \<and> trade_history (portfolio e') = trade_history (portfolio e) @ new
     \<and> map t_cash_flow new = map (\<lambda>l. OptionLeg_payoff l spot) (expired_legs d (strategies (portfolio e)))
     \<and> market_data e' = market_data e \<and> config e' = config e \<and> daily_results e' = daily_results e
     \<and> current_date e' = current_date e \<and> prev_portfolio_value e' = prev_portfolio_value e
     \<and> prev_greeks e' = prev_greeks e"
proof -
  let ?ss = "strategies (portfolio e)"
  let ?rm = "filter (\<lambda>j. has_expired_leg d (?ss ! j)) [0..<length ?ss]"
  obtain p' new where
    s1: "settle_strategies (market_data e) d 0 ?ss (portfolio e, []) = Inr (p', ?rm)"
    and s2: "strategies p' = ?ss" "initial_cash p' = initial_cash (portfolio e)"
    and s3: "cash p' = cash (portfolio e) + 2 * sum_list (map (\<lambda>l. OptionLeg_payoff l spot) (expired_legs d ?ss))"
    and s4: "trade_history p' = trade_history (portfolio e) @ new"
    and s5: "map t_cash_flow new = map (\<lambda>l. OptionLeg_payoff l spot) (expired_legs d ?ss)"
    using settle_strategies_result [OF spot, of 0 "[]" ?ss "portfolio e"] by auto
  have srt: "sort ?rm = ?rm"
    by (rule sorted_sort_id) (simp add: sorted_wrt_filter)
  have "strategies (remove_all ?rm p') = filter (\<lambda>s. \<not> has_expired_leg d s) ?ss"
    using fold_remove_at_filter [of "has_expired_leg d" ?ss] s2
    by (simp add: remove_all_def srt strategies_fold_remove)
  moreover have "cash (remove_all ?rm p') = cash p'" "trade_history (remove_all ?rm p') = trade_history p'"
    "initial_cash (remove_all ?rm p') = initial_cash p'"
    by (simp_all add: remove_all_def cash_fold_remove)
  moreover have "handle_expirations e d = Inr (e\<lparr>portfolio := remove_all ?rm p'\<rparr>)"
    using s1 by (simp add: handle_expirations_def and_then_Inr)
  ultimately show ?thesis using s2 s3 s4 s5 by simp
qed
lemma process_day_strategies:
  assumes "process_day e d = Inr e1"
  shows "strategies (portfolio e1) =
           filter (\<lambda>s. \<not> has_expired_leg d s) (strategies (portfolio e))"
proof -
  from assms obtain spot where spot: "get_spot (market_data e) d = Inr spot"
    unfolding process_day_def by (auto dest: and_then_InrD)
  obtain e' where he: "handle_expirations e d = Inr e'"
    and st: "strategies (portfolio e') =
               filter (\<lambda>s. \<not> has_expired_leg d s) (strategies (portfolio e))"
    using handle_expirations_result [OF spot] by blast
  from assms have "strategies (portfolio e1) = strategies (portfolio e')"
    unfolding process_day_def
    by (auto simp: he and_then_Inr Let_def dest!: and_then_InrD split: if_splits)
  then show ?thesis using st by simp
qed

lemma run_days_strategies:
  "run_days e ds = Inr e2 \<Longrightarrow>
     strategies (portfolio e2) =
       filter (\<lambda>s. list_all (\<lambda>d. \<not> has_expired_leg d s) ds) (strategies (portfolio e))"
proof (induction ds arbitrary: e)
  case Nil
  then show ?case by simp
next
  case (Cons d ds)
  from Cons.prems obtain e1 where
    pd: "process_day (e\<lparr>current_date := Some d\<rparr>) d = Inr e1" and rest: "run_days e1 ds = Inr e2"
    by (auto dest: and_then_InrD)
  show ?case
    using Cons.IH [OF rest] process_day_strategies [OF pd] by (simp add: conj_commute)
qed

text \<open>
  C8. A day that is processed leaves exactly the strategies none of whose legs has an
  expiry on or before that day, each kept once and in order (the removals run over the
  marked indices in descending order); and whatever days are processed afterwards, the
  portfolio they value holds no strategy with a leg expired on that day, and only
  strategies it held after that day.
\<close>

theorem expired_strategy_removed_once:
  assumes "process_day e d = Inr e1" and "run_days e1 ds = Inr e2"
  shows "strategies (portfolio e1) =
           filter (\<lambda>s. \<not> has_expired_leg d s) (strategies (portfolio e))
       \<and> (\<forall>s \<in> set (strategies (portfolio e2)). \<not> has_expired_leg d s)
       \<and> set (strategies (portfolio e2)) \<subseteq> set (strategies (portfolio e1))"
  using process_day_strategies [OF assms(1)] run_days_strategies [OF assms(2)] by auto

theorem expired_strategy_removed_once_witness:
  "has_expired_leg 0 long_call
   \<and> strategies (portfolio (projr (process_day
        ((holding (flat_market [(0, 110), (1, 120)]) (backtest_config gauss_tail_cdf 1 0 0)
            long_call)\<lparr>current_date := Some 0\<rparr>) 0))) = []
   \<and> strategies (portfolio (projr (run_days (projr (process_day
        ((holding (flat_market [(0, 110), (1, 120)]) (backtest_config gauss_tail_cdf 1 0 0)
            long_call)\<lparr>current_date := Some 0\<rparr>) 0)) [1]))) = []"
proof -
  let ?e = "(holding (flat_market [(0, 110), (1, 120)]) (backtest_config gauss_tail_cdf 1 0 0)
              long_call)\<lparr>current_date := Some 0\<rparr>"
  let ?e1 = "projr (process_day ?e 0)"
  let ?e2 = "projr (run_days ?e1 [1])"
  have h1: "process_day ?e 0 = Inr ?e1"
    by (simp add: holding_def engine_simps market_simps valuation_simps portfolio_simps Let_def)
  have st: "strategies (portfolio ?e) = [long_call]"
    by (simp add: holding_def BacktestEngine_init_def portfolio_simps)
  have ex: "has_expired_leg 0 long_call"
    by (simp add: has_expired_leg_def leg_expired_def long_call_def spy_option_def)
  have one: "strategies (portfolio ?e1) = []"
    using process_day_strategies [OF h1] st ex by simp
  have h2: "run_days ?e1 [1] = Inr ?e2"
    by (simp add: holding_def engine_simps market_simps valuation_simps portfolio_simps Let_def)
  from expired_strategy_removed_once [OF h1 h2] one ex show ?thesis by simp
qed

text \<open>
  C10. The handler settles the legs whose expiry is on or before the date and no other:
  the ledger grows by one record per such leg, with that leg's payoff as cash flow, the
  cash changes by those payoffs only (each counted twice), and every strategy with such a
  leg leaves the portfolio whole. A leg of a removed strategy that expires later gets no
  record and no cash flow.
\<close>

theorem unexpired_legs_dropped_unsettled:
  assumes "get_spot (market_data e) d = Inr spot"
  shows "\<exists>e' new. handle_expirations e d = Inr e'
     \<and> strategies (portfolio e') =
         filter (\<lambda>s. \<not> has_expired_leg d s) (strategies (portfolio e))
     \<and> trade_history (portfolio e') = trade_history (portfolio e) @ new
     \<and> map t_cash_flow new =
         map (\<lambda>l. OptionLeg_payoff l spot) (expired_legs d (strategies (portfolio e)))
     \<and> cash (portfolio e') = cash (portfolio e)
         + 2 * sum_list (map (\<lambda>l. OptionLeg_payoff l spot)
                           (expired_legs d (strategies (portfolio e))))"
  using handle_expirations_result [OF assms] by blast

theorem unexpired_legs_dropped_unsettled_witness:
  "\<exists>e'. handle_expirations
           (holding (flat_market [(0, 110)]) (backtest_config gauss_tail_cdf 0 0 0)
              calendar_spread) 0 = Inr e'
        \<and> strategies (portfolio e') = []
        \<and> map t_cash_flow (trade_history (portfolio e')) = [- 1000]
        \<and> cash (portfolio e') = 98000"
proof -
  let ?e = "holding (flat_market [(0, 110)]) (backtest_config gauss_tail_cdf 0 0 0)
              calendar_spread"
  have spot: "get_spot (market_data ?e) 0 = Inr 110"
    by (simp add: holding_def BacktestEngine_init_def market_simps)
  have st: "strategies (portfolio ?e) = [calendar_spread]"
    "trade_history (portfolio ?e) = []" "cash (portfolio ?e) = 100000"
    by (simp_all add: holding_def BacktestEngine_init_def backtest_config_def portfolio_simps)
  have ex: "has_expired_leg 0 calendar_spread"
    by (simp add: has_expired_leg_def leg_expired_def calendar_spread_def spy_option_def)
  have pay: "map (\<lambda>l. OptionLeg_payoff l 110) (expired_legs 0 [calendar_spread]) = [- 1000]"
    by (simp add: expired_legs_def leg_expired_def calendar_spread_def valuation_simps)
  from unexpired_legs_dropped_unsettled [OF spot] obtain e' new where
    "handle_expirations ?e 0 = Inr e'"
    "strategies (portfolio e') =
       filter (\<lambda>s. \<not> has_expired_leg 0 s) (strategies (portfolio ?e))"
    "trade_history (portfolio e') = trade_history (portfolio ?e) @ new"
    "map t_cash_flow new =
       map (\<lambda>l. OptionLeg_payoff l 110) (expired_legs 0 (strategies (portfolio ?e)))"
    "cash (portfolio e') = cash (portfolio ?e)
       + 2 * sum_list (map (\<lambda>l. OptionLeg_payoff l 110)
                         (expired_legs 0 (strategies (portfolio ?e))))"
    by blast
  then show ?thesis using st ex pay by simp
qed

section \<open>Put-call parity\<close>

lemma bs_discount_identity:
  fixes S K r q sigma T :: real
  assumes "0 < S" "0 < K" "0 < T" "0 < sigma"
  shows "S * exp (- q * T) * exp (- (bs_d1 S K r q sigma T)\<^sup>2 / 2)
       = K * exp (- r * T) * exp (- (bs_d2 S K r q sigma T)\<^sup>2 / 2)"
proof -
  let ?v = "sigma * sqrt T"
  let ?d1 = "bs_d1 S K r q sigma T"
  let ?d2 = "bs_d2 S K r q sigma T"
  have v: "0 < ?v" using assms by simp
  have v2: "?v\<^sup>2 = sigma\<^sup>2 * T" using assms by (simp add: power_mult_distrib)
  have d1v: "?d1 * ?v = ln (S / K) + (r - q + 0.5 * sigma\<^sup>2) * T"
    using assms by (simp add: bs_d1_def)
  have "?d1\<^sup>2 - ?d2\<^sup>2 = 2 * (?d1 * ?v) - ?v\<^sup>2"
    by (simp add: bs_d2_def power2_eq_square algebra_simps)
  also have "\<dots> = 2 * ln (S / K) + 2 * (r - q) * T"
    unfolding d1v v2 by (simp add: algebra_simps)
  finally have diff: "- ?d2\<^sup>2 / 2 = - ?d1\<^sup>2 / 2 + ln (S / K) + (r - q) * T"
    by (simp add: field_simps)
  have "K * exp (- r * T) * exp (- ?d2\<^sup>2 / 2)
      = K * exp (- r * T) * (exp (- ?d1\<^sup>2 / 2) * exp (ln (S / K)) * exp ((r - q) * T))"
    by (simp only: diff exp_add)
  also have "exp (ln (S / K)) = S / K" using assms by simp
  also have "K * exp (- r * T) * (exp (- ?d1\<^sup>2 / 2) * (S / K) * exp ((r - q) * T))
      = S * exp (- ?d1\<^sup>2 / 2) * (exp (- r * T) * exp ((r - q) * T))"
    using assms by simp
  also have "exp (- r * T) * exp ((r - q) * T) = exp (- q * T)"
    by (simp add: exp_add [symmetric] algebra_simps)
  finally show ?thesis by (simp add: mult_ac)
qed

lemma bs_raw_prices_nonneg:
  fixes S K r q sigma T :: real
  assumes pos: "0 < S" "0 < K" "0 < T" "0 < sigma"
    and mills: "\<And>x y. x \<le> y \<Longrightarrow> norm_cdf x * exp (x\<^sup>2 / 2) \<le> norm_cdf y * exp (y\<^sup>2 / 2)"
  shows "0 \<le> S * exp (- q * T) * norm_cdf (bs_d1 S K r q sigma T)
             - K * exp (- r * T) * norm_cdf (bs_d2 S K r q sigma T)"
    and "0 \<le> K * exp (- r * T) * norm_cdf (- bs_d2 S K r q sigma T)
             - S * exp (- q * T) * norm_cdf (- bs_d1 S K r q sigma T)"
proof -
  let ?d1 = "bs_d1 S K r q sigma T"
  let ?d2 = "bs_d2 S K r q sigma T"
  let ?A = "S * exp (- q * T) * exp (- ?d1\<^sup>2 / 2)"
  have A: "?A = K * exp (- r * T) * exp (- ?d2\<^sup>2 / 2)"
    by (rule bs_discount_identity [OF pos])
  have Apos: "0 < ?A" using pos by simp
  have le: "?d2 \<le> ?d1" using pos by (simp add: bs_d2_def)
  have unexp: "\<And>x::real. exp (- x\<^sup>2 / 2) * exp (x\<^sup>2 / 2) = 1"
    by (simp add: exp_add [symmetric])
  have S1: "\<And>y. S * exp (- q * T) * y = ?A * (y * exp (?d1\<^sup>2 / 2))"
  proof -
    fix y :: real
    have "?A * (y * exp (?d1\<^sup>2 / 2)) = S * exp (- q * T) * y * (exp (- ?d1\<^sup>2 / 2) * exp (?d1\<^sup>2 / 2))"
      by (simp add: mult_ac)
    then show "S * exp (- q * T) * y = ?A * (y * exp (?d1\<^sup>2 / 2))" unfolding unexp by simp
  qed
  have K1: "\<And>y. K * exp (- r * T) * y = ?A * (y * exp (?d2\<^sup>2 / 2))"
  proof -
    fix y :: real
    have "K * exp (- r * T) * exp (- ?d2\<^sup>2 / 2) * (y * exp (?d2\<^sup>2 / 2))
       = K * exp (- r * T) * y * (exp (- ?d2\<^sup>2 / 2) * exp (?d2\<^sup>2 / 2))"
      by (simp add: mult_ac)
    then show "K * exp (- r * T) * y = ?A * (y * exp (?d2\<^sup>2 / 2))"
      unfolding A unexp by simp
  qed
  have ceq: "S * exp (- q * T) * norm_cdf ?d1 - K * exp (- r * T) * norm_cdf ?d2
      = ?A * (norm_cdf ?d1 * exp (?d1\<^sup>2 / 2) - norm_cdf ?d2 * exp (?d2\<^sup>2 / 2))"
    by (simp only: S1 [of "norm_cdf ?d1"] K1 [of "norm_cdf ?d2"] right_diff_distrib)
  have cge: "0 \<le> norm_cdf ?d1 * exp (?d1\<^sup>2 / 2) - norm_cdf ?d2 * exp (?d2\<^sup>2 / 2)"
    using mills [OF le] by simp
  show "0 \<le> S * exp (- q * T) * norm_cdf ?d1 - K * exp (- r * T) * norm_cdf ?d2"
    by (subst ceq) (rule mult_nonneg_nonneg [OF less_imp_le [OF Apos] cge])
  have peq: "K * exp (- r * T) * norm_cdf (- ?d2) - S * exp (- q * T) * norm_cdf (- ?d1)
      = ?A * (norm_cdf (- ?d2) * exp (?d2\<^sup>2 / 2) - norm_cdf (- ?d1) * exp (?d1\<^sup>2 / 2))"
    by (simp only: S1 [of "norm_cdf (- ?d1)"] K1 [of "norm_cdf (- ?d2)"] right_diff_distrib)
  have pge: "0 \<le> norm_cdf (- ?d2) * exp (?d2\<^sup>2 / 2) - norm_cdf (- ?d1) * exp (?d1\<^sup>2 / 2)"
    using mills [of "- ?d1" "- ?d2"] le by simp
  show "0 \<le> K * exp (- r * T) * norm_cdf (- ?d2) - S * exp (- q * T) * norm_cdf (- ?d1)"
    by (subst peq) (rule mult_nonneg_nonneg [OF less_imp_le [OF Apos] pge])
qed
lemma gauss_tail_cdf_sym: "gauss_tail_cdf (- x) = 1 - gauss_tail_cdf x"
  by (cases "x = 0") (auto simp: gauss_tail_cdf_def)

lemma gauss_tail_cdf_mills:
  assumes "x \<le> y"
  shows "gauss_tail_cdf x * exp (x\<^sup>2 / 2) \<le> gauss_tail_cdf y * exp (y\<^sup>2 / 2)"
proof -
  have unexp: "\<And>z::real. exp (- z\<^sup>2 / 2) * exp (z\<^sup>2 / 2) = 1"
    by (simp add: exp_add [symmetric])
  have neg: "\<And>z. z \<le> 0 \<Longrightarrow> gauss_tail_cdf z * exp (z\<^sup>2 / 2) = 1 / 2"
    using unexp by (simp add: gauss_tail_cdf_def)
  have pos: "\<And>z. 0 < z \<Longrightarrow> gauss_tail_cdf z * exp (z\<^sup>2 / 2) = exp (z\<^sup>2 / 2) - 1 / 2"
    using unexp by (simp add: gauss_tail_cdf_def algebra_simps)
  have one: "\<And>z::real. 1 \<le> exp (z\<^sup>2 / 2)" by simp
  consider "y \<le> 0" | "x \<le> 0" "0 < y" | "0 < x" using assms by linarith
  then show ?thesis
  proof cases
    case 1
    then show ?thesis using assms by (simp add: neg)
  next
    case 2
    then show ?thesis using one [of y] by (simp add: neg pos)
  next
    case 3
    then have "x\<^sup>2 \<le> y\<^sup>2" using assms by (simp add: power_mono)
    then show ?thesis using 3 assms by (simp add: pos)
  qed
qed

text \<open>
  C9. \<open>norm_cdf\<close> stands for \<open>scipy.stats.norm.cdf\<close>, with two properties of the normal
  distribution function: it is symmetric, and \<open>norm_cdf x * exp (x\<^sup>2 / 2)\<close> does not
  decrease in \<open>x\<close>. For a positive spot, strike and volatility and a date before the
  expiry, the call price minus the put price of the same contract is
  \<open>S * exp (- q * T) - K * exp (- r * T)\<close>, both prices being computed (the floor at 0
  changes neither).
\<close>

theorem put_call_parity:
  fixes norm_cdf :: "real \<Rightarrow> real"
  assumes sym: "\<And>x. norm_cdf (- x) = 1 - norm_cdf x"
    and mills: "\<And>x y. x \<le> y \<Longrightarrow> norm_cdf x * exp (x\<^sup>2 / 2) \<le> norm_cdf y * exp (y\<^sup>2 / 2)"
    and spot: "get_spot md d = Inr S" and rate: "get_rate md d = Inr r"
    and dividend: "get_dividend_yield md d = Inr q"
    and vol: "model_sigma use_market_iv md d (strike opt) (expiry opt) S = Inr sigma"
    and pos: "0 < S" "0 < strike opt" "d < expiry opt" "0 < sigma"
  shows "call_minus_put norm_cdf use_market_iv opt d md =
           Inr (S * exp (- q * (real_of_int (expiry opt - d) / 365))
                - strike opt * exp (- r * (real_of_int (expiry opt - d) / 365)))"
proof -
  let ?K = "strike opt"
  let ?T = "real_of_int (expiry opt - d) / 365"
  let ?d1 = "bs_d1 S ?K r q sigma ?T"
  let ?d2 = "bs_d2 S ?K r q sigma ?T"
  let ?c = "S * exp (- q * ?T) * norm_cdf ?d1 - ?K * exp (- r * ?T) * norm_cdf ?d2"
  let ?p = "?K * exp (- r * ?T) * norm_cdf (- ?d2) - S * exp (- q * ?T) * norm_cdf (- ?d1)"
  have T: "0 < ?T" using pos by simp
  have guard: "\<not> (?K = 0 \<or> S / ?K \<le> 0 \<or> sigma * sqrt ?T = 0)"
    using pos T by (simp add: field_simps)
  have nn: "0 \<le> ?c" "0 \<le> ?p"
    using bs_raw_prices_nonneg [OF pos(1,2) T pos(4) mills, where r = r and q = q] by simp_all
  have c: "BlackScholes_price norm_cdf use_market_iv (opt\<lparr>option_type := Call\<rparr>) d md = Inr ?c"
    using T guard nn(1) spot rate dividend vol
    by (simp add: BlackScholes_price_def and_then_Inr Let_def is_call_def max_def)
  have p: "BlackScholes_price norm_cdf use_market_iv (opt\<lparr>option_type := Put\<rparr>) d md = Inr ?p"
    using T guard nn(2) spot rate dividend vol
    by (simp add: BlackScholes_price_def and_then_Inr Let_def is_call_def max_def)
  have "?c - ?p = S * exp (- q * ?T) - ?K * exp (- r * ?T)"
    by (simp add: sym algebra_simps)
  then show ?thesis by (simp add: call_minus_put_def c p and_then_Inr)
qed

theorem put_call_parity_witness:
  "call_minus_put gauss_tail_cdf False (spy_option Call 100 30) 0 (flat_market [(0, 100)])
     = Inr (100 * exp (- 0 * (real_of_int (30 - 0) / 365))
            - 100 * exp (- 0.05 * (real_of_int (30 - 0) / 365)))"
proof -
  let ?md = "flat_market [(0, 100)]"
  let ?opt = "spy_option Call 100 30"
  have spot: "get_spot ?md 0 = Inr 100" and rate: "get_rate ?md 0 = Inr 0.05"
    and dividend: "get_dividend_yield ?md 0 = Inr 0"
    by (simp_all add: market_simps)
  have vol: "model_sigma False ?md 0 (strike ?opt) (expiry ?opt) 100 = Inr 0.2"
    by (simp add: model_sigma_def)
  have pos: "(0::real) < 100" "0 < strike ?opt" "0 < expiry ?opt" "(0::real) < 0.2"
    by (simp_all add: spy_option_def)
  from put_call_parity [of gauss_tail_cdf, OF gauss_tail_cdf_sym gauss_tail_cdf_mills
      spot rate dividend vol pos]
  show ?thesis by (simp add: spy_option_def)
qed


end
